theory Spec2Isabelle
  imports Complex_Main
begin

section \<open>Values\<close>

text \<open>
  A \<^verbatim>\<open>Date\<close> is its number of milliseconds. Quantities, prices, stock and percentages
  are whole numbers (the schema type \<^verbatim>\<open>Number\<close> restricted to the integers that a double
  represents exactly). An object id is the string that its \<^verbatim>\<open>toString()\<close> gives.

  A property read on a value that has no such property yields \<^verbatim>\<open>undefined\<close>; the
  discount fields of a cart can hold it, so they are of type \<open>jsval\<close>. Arithmetic on
  \<^verbatim>\<open>undefined\<close> yields \<^verbatim>\<open>NaN\<close>; the results of arithmetic are of type \<open>number\<close>.
\<close>

type_synonym object_id = string
type_synonym date = int

datatype jsval = Num int | Undefined

datatype number = Finite_number int | NaN

text \<open>\<^verbatim>\<open>a - b\<close> for a number \<open>a\<close>.\<close>

definition js_minus :: "int \<Rightarrow> jsval \<Rightarrow> number" where
  "js_minus a b = (case b of Num d \<Rightarrow> Finite_number (a - d) | Undefined \<Rightarrow> NaN)"

text \<open>\<^verbatim>\<open>Math.max(0, x)\<close>.\<close>

definition Math_max0 :: "number \<Rightarrow> number" where
  "Math_max0 x = (case x of Finite_number n \<Rightarrow> Finite_number (max 0 n) | NaN \<Rightarrow> NaN)"

text \<open>\<^verbatim>\<open>x === 0\<close>.\<close>

definition js_is_zero :: "jsval \<Rightarrow> bool" where
  "js_is_zero x = (x = Num 0)"

text \<open>\<^verbatim>\<open>Math.round\<close>: the nearest integer, a tie going up.\<close>

definition Math_round :: "rat \<Rightarrow> int" where
  "Math_round x = \<lfloor>x + 1 / 2\<rfloor>"

text \<open>The exception of a method call on \<^verbatim>\<open>null\<close>.\<close>

datatype error = TypeError

text \<open>
  \<^verbatim>\<open>Array.prototype.findIndex\<close>: the index of the first element that satisfies the test,
  \<open>-1\<close> when there is none. The test may throw, which ends the search.
\<close>

fun findIndex_from :: "int \<Rightarrow> ('a \<Rightarrow> error + bool) \<Rightarrow> 'a list \<Rightarrow> error + int" where
  "findIndex_from k P [] = Inr (-1)"
| "findIndex_from k P (x # xs) =
     (case P x of
        Inl e \<Rightarrow> Inl e
      | Inr b \<Rightarrow> if b then Inr k else findIndex_from (k + 1) P xs)"

definition findIndex :: "('a \<Rightarrow> error + bool) \<Rightarrow> 'a list \<Rightarrow> error + int" where
  "findIndex P xs = findIndex_from 0 P xs"

section \<open>Data model\<close>

text \<open>Products (\<^verbatim>\<open>product.model.js\<close>), the fields the cart reads.\<close>

type_synonym image = "string \<times> string"
type_synonym attributes = "string \<times> string \<times> string \<times> string"

record product =
  p_id :: object_id
  p_title :: string
  p_sku :: string
  p_images :: "image list"
  p_attributes :: attributes
  price :: int
  stock :: int
  p_isActive :: bool

text \<open>
  The \<^verbatim>\<open>productId\<close> of a cart item. In the store, and in an item that a method has just
  pushed, it is an object id. In a cart that \<^verbatim>\<open>getOrCreateCart\<close> has loaded it is populated:
  it is the product document, or \<^verbatim>\<open>null\<close> when the product has been deleted. (The
  populated document carries the selected fields of the product; the model attaches the
  product.)

  \<^verbatim>\<open>toString()\<close> of an object id is its hexadecimal string. Of a populated document it is
  the inspection text of the document, which is no object id; two such texts are equal when
  the documents are. On \<^verbatim>\<open>null\<close> the call throws.
\<close>

datatype product_ref = Ref object_id | Populated product | Populated_null

datatype js_string = Hex object_id | Inspect product

definition toString :: "product_ref \<Rightarrow> error + js_string" where
  "toString r =
     (case r of
        Ref i \<Rightarrow> Inr (Hex i)
      | Populated p \<Rightarrow> Inr (Inspect p)
      | Populated_null \<Rightarrow> Inl TypeError)"

text \<open>
  Cart items, the applied coupon snapshot and the cart (\<^verbatim>\<open>cart.model.js\<close>). The fields
  that no method reads are left out: the timestamps, the currency of an item, and
  \<^verbatim>\<open>appliedAt\<close> of the coupon snapshot.
\<close>

record productSnapshot =
  title :: string
  sku :: string
  image :: "image option"
  attributes :: attributes

record cart_item =
  item_id :: object_id
  productId :: product_ref
  productSnapshot :: productSnapshot
  quantity :: int
  priceAtAdd :: int

record cart_coupon =
  cc_code :: string
  cc_discountType :: string
  cc_discountValue :: int
  discountAmount :: jsval
  cc_applicableProducts :: "object_id list"

record cart =
  userId :: "object_id option"
  sessionId :: "string option"
  items :: "cart_item list"
  subtotal :: int
  coupon :: "cart_coupon option"
  totalDiscount :: jsval
  finalTotal :: int
  currency :: string

text \<open>Coupons (\<^verbatim>\<open>coupon.model.js\<close>); \<open>maxUsage = None\<close> is \<^verbatim>\<open>null\<close>.\<close>

record coupon =
  code :: string
  discountType :: string
  discountValue :: int
  applicableProducts :: "object_id list"
  startDate :: date
  endDate :: date
  isActive :: bool
  usageCount :: int
  maxUsage :: "int option"

text \<open>
  What \<^verbatim>\<open>calculateDiscount\<close> returns: the bare number \<^verbatim>\<open>0\<close> of its two early returns,
  or the object \<^verbatim>\<open>{discountAmount, applicableSubtotal, applicableItems}\<close>, its
  three fields in that order.
\<close>

datatype calc_result =
    Bare_zero
  | Calc int int "cart_item list"

text \<open>\<^verbatim>\<open>discountCalculation.discountAmount\<close>: a number has no such property.\<close>

definition discountAmount_of :: "calc_result \<Rightarrow> jsval" where
  "discountAmount_of r = (case r of Bare_zero \<Rightarrow> Undefined | Calc d s its \<Rightarrow> Num d)"

section \<open>Coupon methods\<close>

text \<open>
  \<^verbatim>\<open>isValid\<close> reads the clock; the reading is the parameter \<open>now\<close>. The usage test is
  \<^verbatim>\<open>!this.maxUsage || this.usageCount < this.maxUsage\<close>, and \<^verbatim>\<open>!\<close> holds of
  \<^verbatim>\<open>null\<close> and of \<^verbatim>\<open>0\<close>.
\<close>

definition isValid :: "coupon \<Rightarrow> date \<Rightarrow> bool" where
  "isValid cp now =
     (let isDateValid = (now \<ge> startDate cp \<and> now \<le> endDate cp);
          isUsageValid = (case maxUsage cp of
                            None \<Rightarrow> True
                          | Some m \<Rightarrow> m = 0 \<or> usageCount cp < m)
      in isActive cp \<and> isDateValid \<and> isUsageValid)"

text \<open>
  \<^verbatim>\<open>applicableProductIds.includes(x.toString())\<close>, where \<^verbatim>\<open>applicableProductIds\<close> are
  the strings of the coupon's object ids.
\<close>

definition includes_string :: "object_id list \<Rightarrow> js_string \<Rightarrow> bool" where
  "includes_string ids t = list_ex (\<lambda>i. Hex i = t) ids"

text \<open>The \<^verbatim>\<open>some\<close> of \<^verbatim>\<open>isApplicableToProducts\<close> over the values it is given.\<close>

fun some_applicable :: "object_id list \<Rightarrow> product_ref list \<Rightarrow> error + bool" where
  "some_applicable ids [] = Inr False"
| "some_applicable ids (pid # rest) =
     (case toString pid of
        Inl e \<Rightarrow> Inl e
      | Inr t \<Rightarrow> if includes_string ids t then Inr True else some_applicable ids rest)"

definition isApplicableToProducts :: "coupon \<Rightarrow> product_ref list \<Rightarrow> error + bool" where
  "isApplicableToProducts cp productIds = some_applicable (applicableProducts cp) productIds"

text \<open>The \<^verbatim>\<open>forEach\<close> of \<^verbatim>\<open>calculateDiscount\<close>, with its two accumulators.\<close>

fun applicable_loop ::
  "object_id list \<Rightarrow> cart_item list \<Rightarrow> int \<Rightarrow> cart_item list
     \<Rightarrow> error + (int \<times> cart_item list)" where
  "applicable_loop ids [] applicableSubtotal applicableItems =
     Inr (applicableSubtotal, applicableItems)"
| "applicable_loop ids (item # rest) applicableSubtotal applicableItems =
     (case toString (productId item) of
        Inl e \<Rightarrow> Inl e
      | Inr t \<Rightarrow>
          if includes_string ids t
          then (let itemTotal = priceAtAdd item * quantity item
                in applicable_loop ids rest (applicableSubtotal + itemTotal)
                     (applicableItems @ [item]))
          else applicable_loop ids rest applicableSubtotal applicableItems)"

definition calculateDiscount ::
  "coupon \<Rightarrow> date \<Rightarrow> cart_item list \<Rightarrow> error + calc_result" where
  "calculateDiscount cp now cartItems =
     (if \<not> isValid cp now then Inr Bare_zero
      else
        (case applicable_loop (applicableProducts cp) cartItems 0 [] of
           Inl e \<Rightarrow> Inl e
         | Inr (applicableSubtotal, applicableItems) \<Rightarrow>
             if applicableSubtotal = 0 then Inr Bare_zero
             else
               (let amount =
                      (if discountType cp = ''percentage''
                       then Math_round (of_int (applicableSubtotal * discountValue cp) / 100)
                       else 0)
                in Inr (Calc amount applicableSubtotal applicableItems))))"

section \<open>Cart methods\<close>

definition calculateSubtotal :: "cart \<Rightarrow> cart" where
  "calculateSubtotal c =
     c\<lparr>subtotal := foldl (\<lambda>total item. total + priceAtAdd item * quantity item) 0 (items c)\<rparr>"

text \<open>
  \<^verbatim>\<open>calculateFinalTotal\<close>. The schema path \<^verbatim>\<open>finalTotal\<close> is a \<^verbatim>\<open>Number\<close>, which
  refuses \<^verbatim>\<open>NaN\<close>: the assignment then leaves the field as it was.
\<close>

definition calculateFinalTotal :: "cart \<Rightarrow> cart" where
  "calculateFinalTotal c =
     (let c1 = calculateSubtotal c;
          c2 = c1\<lparr>totalDiscount :=
                    (case coupon c1 of Some cc \<Rightarrow> discountAmount cc | None \<Rightarrow> Num 0)\<rparr>
      in case Math_max0 (js_minus (subtotal c2) (totalDiscount c2)) of
           Finite_number n \<Rightarrow> c2\<lparr>finalTotal := n\<rparr>
         | NaN \<Rightarrow> c2)"

text \<open>\<^verbatim>\<open>item.productId.toString() === s\<close> for a string \<open>s\<close>.\<close>

definition productId_is :: "js_string \<Rightarrow> cart_item \<Rightarrow> error + bool" where
  "productId_is s item =
     (case toString (productId item) of Inl e \<Rightarrow> Inl e | Inr t \<Rightarrow> Inr (t = s))"

text \<open>
  \<^verbatim>\<open>addItem\<close>. The document array gives a pushed item its \<^verbatim>\<open>_id\<close>; that fresh id is
  the parameter \<open>new_id\<close>. The pushed item refers to the product by its object id.
\<close>

definition addItem :: "cart \<Rightarrow> product \<Rightarrow> int \<Rightarrow> int \<Rightarrow> object_id \<Rightarrow> error + cart" where
  "addItem c productData qty prc new_id =
     (case findIndex (productId_is (Hex (p_id productData))) (items c) of
        Inl e \<Rightarrow> Inl e
      | Inr existingItemIndex \<Rightarrow>
          Inr (calculateFinalTotal
                 (if existingItemIndex > -1
                  then c\<lparr>items := (items c)
                           [nat existingItemIndex :=
                              (items c ! nat existingItemIndex)
                                \<lparr>quantity :=
                                   quantity (items c ! nat existingItemIndex) + qty\<rparr>]\<rparr>
                  else
                    (let newItem =
                           \<lparr>item_id = new_id,
                            productId = Ref (p_id productData),
                            productSnapshot =
                              \<lparr>title = p_title productData,
                               sku = p_sku productData,
                               image = (case p_images productData of
                                          [] \<Rightarrow> None | i # _ \<Rightarrow> Some i),
                               attributes = p_attributes productData\<rparr>,
                            quantity = qty,
                            priceAtAdd = prc\<rparr>
                     in c\<lparr>items := items c @ [newItem]\<rparr>))))"

text \<open>
  The nested \<^verbatim>\<open>some\<close> of \<^verbatim>\<open>removeItem\<close>. For each item the inner test runs over the
  coupon's products and calls \<^verbatim>\<open>item.productId.toString()\<close> at the first of them.
\<close>

fun hasApplicableProducts :: "object_id list \<Rightarrow> cart_item list \<Rightarrow> error + bool" where
  "hasApplicableProducts ids [] = Inr False"
| "hasApplicableProducts ids (item # rest) =
     (if ids = [] then hasApplicableProducts ids rest
      else
        (case toString (productId item) of
           Inl e \<Rightarrow> Inl e
         | Inr t \<Rightarrow>
             if includes_string ids t then Inr True else hasApplicableProducts ids rest))"

definition removeItem :: "cart \<Rightarrow> object_id \<Rightarrow> error + cart" where
  "removeItem c itemId =
     (let c1 = calculateFinalTotal
                 (c\<lparr>items := filter (\<lambda>item. item_id item \<noteq> itemId) (items c)\<rparr>)
      in if coupon c1 \<noteq> None \<and> length (items c1) > 0
         then
           (case hasApplicableProducts (cc_applicableProducts (the (coupon c1))) (items c1) of
              Inl e \<Rightarrow> Inl e
            | Inr has \<Rightarrow>
                if \<not> has then Inr (calculateFinalTotal (c1\<lparr>coupon := None\<rparr>)) else Inr c1)
         else if length (items c1) = 0
         then Inr (calculateFinalTotal (c1\<lparr>coupon := None\<rparr>))
         else Inr c1)"

text \<open>
  \<^verbatim>\<open>this.items.id(itemId)\<close> is the first item with that \<^verbatim>\<open>_id\<close>, or \<^verbatim>\<open>null\<close>;
  the assignment to its \<^verbatim>\<open>quantity\<close> changes that item in the array.
\<close>

fun set_quantity_of :: "object_id \<Rightarrow> int \<Rightarrow> cart_item list \<Rightarrow> cart_item list" where
  "set_quantity_of itemId newQuantity [] = []"
| "set_quantity_of itemId newQuantity (item # rest) =
     (if item_id item = itemId then item\<lparr>quantity := newQuantity\<rparr> # rest
      else item # set_quantity_of itemId newQuantity rest)"

definition updateItemQuantity :: "cart \<Rightarrow> object_id \<Rightarrow> int \<Rightarrow> error + cart" where
  "updateItemQuantity c itemId newQuantity =
     (if newQuantity \<le> 0 then removeItem c itemId
      else
        (case find (\<lambda>item. item_id item = itemId) (items c) of
           Some item \<Rightarrow>
             Inr (calculateFinalTotal
                    (c\<lparr>items := set_quantity_of itemId newQuantity (items c)\<rparr>))
         | None \<Rightarrow> Inr c))"

definition clearCart :: "cart \<Rightarrow> cart" where
  "clearCart c = calculateFinalTotal (c\<lparr>items := [], coupon := None\<rparr>)"

definition applyCoupon :: "cart \<Rightarrow> coupon \<Rightarrow> calc_result \<Rightarrow> cart" where
  "applyCoupon c couponData discountCalculation =
     calculateFinalTotal
       (c\<lparr>coupon := Some
            \<lparr>cc_code = code couponData,
             cc_discountType = discountType couponData,
             cc_discountValue = discountValue couponData,
             discountAmount = discountAmount_of discountCalculation,
             cc_applicableProducts = applicableProducts couponData\<rparr>\<rparr>)"

definition removeCoupon :: "cart \<Rightarrow> cart" where
  "removeCoupon c = calculateFinalTotal (c\<lparr>coupon := None\<rparr>)"

text \<open>
  One round of the \<^verbatim>\<open>forEach\<close> of \<^verbatim>\<open>mergeWith\<close>, on the items of \<^verbatim>\<open>this\<close>. The test
  of its \<^verbatim>\<open>findIndex\<close> is
  \<^verbatim>\<open>item.productId.toString() === otherItem.productId.toString()\<close>, left side first.
\<close>

definition same_product :: "cart_item \<Rightarrow> cart_item \<Rightarrow> error + bool" where
  "same_product otherItem item =
     (case toString (productId item) of
        Inl e \<Rightarrow> Inl e
      | Inr t \<Rightarrow>
          (case toString (productId otherItem) of
             Inl e \<Rightarrow> Inl e
           | Inr t' \<Rightarrow> Inr (t = t')))"

definition merge_item :: "cart_item list \<Rightarrow> cart_item \<Rightarrow> error + cart_item list" where
  "merge_item its otherItem =
     (case findIndex (same_product otherItem) its of
        Inl e \<Rightarrow> Inl e
      | Inr existingItemIndex \<Rightarrow>
          if existingItemIndex > -1
          then Inr (its[nat existingItemIndex :=
                          (its ! nat existingItemIndex)
                            \<lparr>quantity :=
                               quantity (its ! nat existingItemIndex) + quantity otherItem,
                             priceAtAdd := priceAtAdd otherItem\<rparr>])
          else Inr (its @ [otherItem]))"

fun merge_loop :: "cart_item list \<Rightarrow> cart_item list \<Rightarrow> error + cart_item list" where
  "merge_loop its [] = Inr its"
| "merge_loop its (otherItem # rest) =
     (case merge_item its otherItem of
        Inl e \<Rightarrow> Inl e
      | Inr its' \<Rightarrow> merge_loop its' rest)"

text \<open>
  \<open>otherCart = None\<close> is a \<^verbatim>\<open>null\<close> argument; a cart document always has its
  \<^verbatim>\<open>items\<close> array.
\<close>

definition mergeWith :: "cart \<Rightarrow> cart option \<Rightarrow> error + cart" where
  "mergeWith c otherCart =
     (case otherCart of
        None \<Rightarrow> Inr c
      | Some other \<Rightarrow>
          (case merge_loop (items c) (items other) of
             Inl e \<Rightarrow> Inl e
           | Inr its \<Rightarrow> Inr (calculateFinalTotal (c\<lparr>items := its, coupon := None\<rparr>))))"

section \<open>Cart controller\<close>

text \<open>
  The collaborators of the controller: the product catalogue (\<^verbatim>\<open>Product.findById\<close>), the
  coupon directory (\<^verbatim>\<open>Coupon.findOne({code})\<close>), the cart store
  (\<^verbatim>\<open>Cart.findOne({userId})\<close>, \<^verbatim>\<open>Cart.findOne({sessionId})\<close>) and the id syntax check
  \<^verbatim>\<open>mongoose.isValidObjectId\<close>. A lookup returns the first stored document that matches.
  The items of a stored cart refer to their products by object id.
\<close>

record world =
  products :: "product list"
  coupons :: "coupon list"
  carts :: "cart list"
  isValidObjectId :: "string \<Rightarrow> bool"

definition findProduct :: "world \<Rightarrow> object_id \<Rightarrow> product option" where
  "findProduct w pid = find (\<lambda>p. p_id p = pid) (products w)"

definition findCoupon :: "world \<Rightarrow> string \<Rightarrow> coupon option" where
  "findCoupon w cd = find (\<lambda>cp. code cp = cd) (coupons w)"

text \<open>
  \<^verbatim>\<open>Product.findById(item.productId)\<close>: a populated document is looked up by its
  \<^verbatim>\<open>_id\<close>, and \<^verbatim>\<open>null\<close> finds nothing.
\<close>

definition findById_ref :: "world \<Rightarrow> product_ref \<Rightarrow> product option" where
  "findById_ref w r =
     (case r of
        Ref i \<Rightarrow> findProduct w i
      | Populated p \<Rightarrow> findProduct w (p_id p)
      | Populated_null \<Rightarrow> None)"

text \<open>
  \<^verbatim>\<open>.populate({path: "items.productId", ...})\<close>: every object id is replaced by the
  product document of that id, or by \<^verbatim>\<open>null\<close> when there is none.
\<close>

definition populate_ref :: "world \<Rightarrow> product_ref \<Rightarrow> product_ref" where
  "populate_ref w r =
     (case r of
        Ref i \<Rightarrow> (case findProduct w i of Some p \<Rightarrow> Populated p | None \<Rightarrow> Populated_null)
      | Populated p \<Rightarrow> Populated p
      | Populated_null \<Rightarrow> Populated_null)"

definition populate :: "world \<Rightarrow> cart \<Rightarrow> cart" where
  "populate w c =
     c\<lparr>items := map (\<lambda>item. item\<lparr>productId := populate_ref w (productId item)\<rparr>) (items c)\<rparr>"

text \<open>A string that may be absent is truthy when it is present and not empty.\<close>

definition truthy :: "string option \<Rightarrow> bool" where
  "truthy s = (case s of None \<Rightarrow> False | Some v \<Rightarrow> v \<noteq> [])"

text \<open>\<^verbatim>\<open>new Cart({userId})\<close> and \<^verbatim>\<open>new Cart({sessionId})\<close>, with the schema defaults.\<close>

definition new_Cart :: "object_id option \<Rightarrow> string option \<Rightarrow> cart" where
  "new_Cart uid sid =
     \<lparr>userId = uid, sessionId = sid, items = [], subtotal = 0, coupon = None,
      totalDiscount = Num 0, finalTotal = 0, currency = ''INR''\<rparr>"

text \<open>
  \<^verbatim>\<open>getOrCreateCart\<close>; \<open>None\<close> is its \<^verbatim>\<open>throw\<close>. A cart found in the store comes back
  populated.
\<close>

definition getOrCreateCart :: "world \<Rightarrow> object_id option \<Rightarrow> string option \<Rightarrow> cart option" where
  "getOrCreateCart w uid sid =
     (if truthy uid
      then (case find (\<lambda>c. userId c = uid) (carts w) of
              Some c \<Rightarrow> Some (populate w c)
            | None \<Rightarrow> Some (new_Cart uid None))
      else if truthy sid
      then (case find (\<lambda>c. sessionId c = sid) (carts w) of
              Some c \<Rightarrow> Some (populate w c)
            | None \<Rightarrow> Some (new_Cart None sid))
      else None)"

text \<open>
  \<^verbatim>\<open>cart.save()\<close> validates the document against the schema and rejects it when a
  validator fails: the minima of the number fields, and the required \<^verbatim>\<open>discountAmount\<close>
  of an applied coupon. (A refused \<^verbatim>\<open>NaN\<close> is recorded on the document and fails the
  validation too; whenever a handler saves, that happens together with the missing
  \<^verbatim>\<open>discountAmount\<close>. No handler below reaches its save with an item whose product
  is \<^verbatim>\<open>null\<close>.)
\<close>

definition save_accepts :: "cart \<Rightarrow> bool" where
  "save_accepts c \<longleftrightarrow>
     list_all (\<lambda>item. 1 \<le> quantity item \<and> 0 \<le> priceAtAdd item) (items c) \<and>
     0 \<le> subtotal c \<and>
     (case totalDiscount c of Num d \<Rightarrow> 0 \<le> d | Undefined \<Rightarrow> True) \<and>
     0 \<le> finalTotal c \<and>
     (case coupon c of
        None \<Rightarrow> True
      | Some cc \<Rightarrow> (case discountAmount cc of Num d \<Rightarrow> 0 \<le> d | Undefined \<Rightarrow> False))"

text \<open>The messages of the responses; a template string carries its arguments.\<close>

datatype message =
    Product_ID_is_required
  | Invalid_product_ID
  | Quantity_must_be_at_least_1
  | Product_not_found
  | Product_is_not_available string
  | Only_units_available int string int
  | Failed_to_add_item_to_cart
  | Cart_item_quantity_updated
  | Item_added_to_cart
  | Failed_to_fetch_cart
  | Coupon_code_is_required
  | Cannot_apply_coupon_to_empty_cart
  | Invalid_coupon_code
  | Coupon_is_expired_or_inactive
  | Coupon_is_not_applicable_to_any_products_in_your_cart
  | Coupon_cannot_be_applied_to_current_cart_items
  | Failed_to_apply_coupon
  | Coupon_applied_successfully

text \<open>
  A handler answers with a failure (status, message, \<^verbatim>\<open>maxAllowed\<close>) or, once
  \<^verbatim>\<open>cart.save()\<close> has accepted the cart, with a success. An exception caught by the
  handler, a rejected save among them, becomes its 500 answer; the \<^verbatim>\<open>error\<close> text of
  that answer is left out. Beside the response the model returns the \<^verbatim>\<open>cart\<close> variable
  of the handler as it is at that moment (\<open>None\<close> before the cart is loaded).
\<close>

datatype response =
    Failure nat message "int option"
  | Success message

datatype stock_validation =
    Stock_valid
  | Stock_invalid int message

text \<open>\<^verbatim>\<open>validateStock\<close>; \<open>Inl\<close> is its \<^verbatim>\<open>throw\<close>.\<close>

definition validateStock :: "product \<Rightarrow> int \<Rightarrow> int \<Rightarrow> message + stock_validation" where
  "validateStock prd requestedQuantity existingQuantity =
     (if \<not> p_isActive prd then Inl (Product_is_not_available (p_title prd))
      else
        (let totalQuantity = existingQuantity + requestedQuantity
         in if totalQuantity > stock prd
            then Inr (Stock_invalid (max 0 (stock prd - existingQuantity))
                        (Only_units_available (stock prd) (p_title prd) existingQuantity))
            else Inr Stock_valid))"

record add_request =
  req_user :: "object_id option"
  req_session :: "string option"
  req_productId :: "string option"
  req_quantity :: "int option"

text \<open>
  \<^verbatim>\<open>cart.items.find((item) => item.productId.toString() === productId)\<close> of
  \<^verbatim>\<open>addToCart\<close>.
\<close>

fun find_existing :: "string \<Rightarrow> cart_item list \<Rightarrow> error + cart_item option" where
  "find_existing pid [] = Inr None"
| "find_existing pid (item # rest) =
     (case productId_is (Hex pid) item of
        Inl e \<Rightarrow> Inl e
      | Inr b \<Rightarrow> if b then Inr (Some item) else find_existing pid rest)"

text \<open>
  The coupon revalidation of \<^verbatim>\<open>addToCart\<close>. The clock is read twice, by \<^verbatim>\<open>isValid\<close>
  (\<open>now\<close>) and inside \<^verbatim>\<open>calculateDiscount\<close> (\<open>now'\<close>).
\<close>

definition revalidate_after_add ::
  "world \<Rightarrow> date \<Rightarrow> date \<Rightarrow> object_id \<Rightarrow> cart \<Rightarrow> error + cart" where
  "revalidate_after_add w now now' pid c =
     (case coupon c of
        None \<Rightarrow> Inr c
      | Some cc \<Rightarrow>
          (case findCoupon w (cc_code cc) of
             None \<Rightarrow> Inr (removeCoupon c)
           | Some cp \<Rightarrow>
               if \<not> isValid cp now then Inr (removeCoupon c)
               else
                 (case isApplicableToProducts cp [Ref pid] of
                    Inl e \<Rightarrow> Inl e
                  | Inr applicable \<Rightarrow>
                      if \<not> applicable then Inr (removeCoupon c)
                      else
                        (case calculateDiscount cp now' (items c) of
                           Inl e \<Rightarrow> Inl e
                         | Inr discountCalculation \<Rightarrow>
                             Inr (applyCoupon c cp discountCalculation)))))"

definition addToCart ::
  "world \<Rightarrow> date \<Rightarrow> date \<Rightarrow> object_id \<Rightarrow> add_request \<Rightarrow> response \<times> cart option" where
  "addToCart w now now' new_id req =
     (let qty = (case req_quantity req of None \<Rightarrow> 1 | Some q \<Rightarrow> q)
      in if \<not> truthy (req_productId req)
         then (Failure 400 Product_ID_is_required None, None)
         else
           (let pid = the (req_productId req)
            in if \<not> isValidObjectId w pid
               then (Failure 400 Invalid_product_ID None, None)
               else if qty < 1
               then (Failure 400 Quantity_must_be_at_least_1 None, None)
               else
                 (case findProduct w pid of
                    None \<Rightarrow> (Failure 404 Product_not_found None, None)
                  | Some prd \<Rightarrow>
                      (case getOrCreateCart w (req_user req) (req_session req) of
                         None \<Rightarrow> (Failure 500 Failed_to_add_item_to_cart None, None)
                       | Some c \<Rightarrow>
                           (case find_existing pid (items c) of
                              Inl e \<Rightarrow> (Failure 500 Failed_to_add_item_to_cart None, Some c)
                            | Inr existingItem \<Rightarrow>
                                (let existingQuantity =
                                       (case existingItem of
                                          Some item \<Rightarrow> quantity item
                                        | None \<Rightarrow> 0)
                                 in case validateStock prd qty existingQuantity of
                                      Inl thrown \<Rightarrow>
                                        (Failure 500 Failed_to_add_item_to_cart None, Some c)
                                    | Inr (Stock_invalid maxAllowed msg) \<Rightarrow>
                                        (Failure 400 msg (Some maxAllowed), Some c)
                                    | Inr Stock_valid \<Rightarrow>
                                        (case addItem c prd qty (price prd) new_id of
                                           Inl e \<Rightarrow>
                                             (Failure 500 Failed_to_add_item_to_cart None,
                                              Some c)
                                         | Inr c1 \<Rightarrow>
                                             (case revalidate_after_add w now now' pid c1 of
                                                Inl e \<Rightarrow>
                                                  (Failure 500 Failed_to_add_item_to_cart
                                                     None, Some c1)
                                              | Inr c2 \<Rightarrow>
                                                  if save_accepts c2
                                                  then (Success
                                                          (if existingItem \<noteq> None
                                                           then Cart_item_quantity_updated
                                                           else Item_added_to_cart),
                                                        Some c2)
                                                  else (Failure 500
                                                          Failed_to_add_item_to_cart None,
                                                        Some c2)))))))))"

text \<open>The loop of \<^verbatim>\<open>getCart\<close> over the items, with its two arrays.\<close>

datatype reason =
    Product_no_longer_available
  | Quantity_reduced_to int
  | Out_of_stock
  | Coupon_expired_or_invalid
  | No_applicable_products_in_cart

type_synonym removed_item = "string \<times> reason"

fun revalidate_items ::
  "world \<Rightarrow> cart_item list \<Rightarrow> cart_item list \<Rightarrow> removed_item list
     \<Rightarrow> cart_item list \<times> removed_item list" where
  "revalidate_items w [] validItems removedItems = (validItems, removedItems)"
| "revalidate_items w (item # rest) validItems removedItems =
     (case findById_ref w (productId item) of
        None \<Rightarrow>
          revalidate_items w rest validItems
            (removedItems @ [(title (productSnapshot item), Product_no_longer_available)])
      | Some prd \<Rightarrow>
          if \<not> p_isActive prd
          then revalidate_items w rest validItems
                 (removedItems @ [(title (productSnapshot item), Product_no_longer_available)])
          else if quantity item > stock prd
          then
            (if stock prd > 0
             then revalidate_items w rest
                    (validItems @ [item\<lparr>quantity := stock prd\<rparr>])
                    (removedItems @
                       [(title (productSnapshot item), Quantity_reduced_to (stock prd))])
             else revalidate_items w rest validItems
                    (removedItems @ [(title (productSnapshot item), Out_of_stock)]))
          else revalidate_items w rest (validItems @ [item]) removedItems)"

definition revalidate_coupon ::
  "world \<Rightarrow> date \<Rightarrow> date \<Rightarrow> cart \<Rightarrow> removed_item list
     \<Rightarrow> error + (cart \<times> removed_item list)" where
  "revalidate_coupon w now now' c removedItems =
     (if coupon c \<noteq> None \<and> length (items c) > 0
      then
        (case findCoupon w (cc_code (the (coupon c))) of
           None \<Rightarrow>
             Inr (removeCoupon c, removedItems @ [(''Coupon'', Coupon_expired_or_invalid)])
         | Some cp \<Rightarrow>
             if \<not> isValid cp now
             then Inr (removeCoupon c,
                       removedItems @ [(''Coupon'', Coupon_expired_or_invalid)])
             else
               (case calculateDiscount cp now' (items c) of
                  Inl e \<Rightarrow> Inl e
                | Inr discountCalculation \<Rightarrow>
                    if js_is_zero (discountAmount_of discountCalculation)
                    then Inr (removeCoupon c,
                              removedItems @ [(''Coupon'', No_applicable_products_in_cart)])
                    else Inr (applyCoupon c cp discountCalculation, removedItems)))
      else Inr (c, removedItems))"

text \<open>
  \<^verbatim>\<open>getCart\<close>: the items reported and the cart as it is saved, or the status and
  message of the failure answer. An exception, a rejected save among them, gives the 500
  answer.
\<close>

definition getCart ::
  "world \<Rightarrow> date \<Rightarrow> date \<Rightarrow> object_id option \<Rightarrow> string option
     \<Rightarrow> (nat \<times> message) + (removed_item list \<times> cart)" where
  "getCart w now now' uid sid =
     (case getOrCreateCart w uid sid of
        None \<Rightarrow> Inl (500, Failed_to_fetch_cart)
      | Some c \<Rightarrow>
          (let (validItems, removedItems) = revalidate_items w (items c) [] [];
               c1 = c\<lparr>items := validItems\<rparr>
           in case revalidate_coupon w now now' c1 removedItems of
                Inl e \<Rightarrow> Inl (500, Failed_to_fetch_cart)
              | Inr (c2, removedItems2) \<Rightarrow>
                  (let c3 = calculateFinalTotal c2
                   in if save_accepts c3 then Inr (removedItems2, c3)
                      else Inl (500, Failed_to_fetch_cart))))"

text \<open>\<^verbatim>\<open>String.prototype.toUpperCase\<close> on the letters a to z.\<close>

definition toUpperCase :: "string \<Rightarrow> string" where
  "toUpperCase s =
     map (\<lambda>ch. let n = (of_char ch :: nat)
               in if 97 \<le> n \<and> n \<le> 122 then char_of (n - 32) else ch) s"

text \<open>The \<^verbatim>\<open>applyCoupon\<close> handler of the controller.\<close>

definition applyCoupon_handler ::
  "world \<Rightarrow> date \<Rightarrow> date \<Rightarrow> object_id option \<Rightarrow> string option \<Rightarrow> string option
     \<Rightarrow> response \<times> cart option" where
  "applyCoupon_handler w now now' uid sid cd =
     (if \<not> truthy cd
      then (Failure 400 Coupon_code_is_required None, None)
      else
        (case getOrCreateCart w uid sid of
           None \<Rightarrow> (Failure 500 Failed_to_apply_coupon None, None)
         | Some c \<Rightarrow>
             if length (items c) = 0
             then (Failure 400 Cannot_apply_coupon_to_empty_cart None, Some c)
             else
               (case findCoupon w (toUpperCase (the cd)) of
                  None \<Rightarrow> (Failure 404 Invalid_coupon_code None, Some c)
                | Some cp \<Rightarrow>
                    if \<not> isValid cp now
                    then (Failure 400 Coupon_is_expired_or_inactive None, Some c)
                    else
                      (let cartProductIds = map productId (items c)
                       in case isApplicableToProducts cp cartProductIds of
                            Inl e \<Rightarrow> (Failure 500 Failed_to_apply_coupon None, Some c)
                          | Inr applicable \<Rightarrow>
                              if \<not> applicable
                              then (Failure 400
                                      Coupon_is_not_applicable_to_any_products_in_your_cart
                                      None, Some c)
                              else
                                (case calculateDiscount cp now' (items c) of
                                   Inl e \<Rightarrow> (Failure 500 Failed_to_apply_coupon None, Some c)
                                 | Inr discountCalculation \<Rightarrow>
                                     if js_is_zero (discountAmount_of discountCalculation)
                                     then (Failure 400
                                             Coupon_cannot_be_applied_to_current_cart_items
                                             None, Some c)
                                     else
                                       (let c1 = applyCoupon c cp discountCalculation
                                        in if save_accepts c1
                                           then (Success Coupon_applied_successfully, Some c1)
                                           else (Failure 500 Failed_to_apply_coupon None,
                                                 Some c1)))))))"

section \<open>The totals as the specification states them\<close>

text \<open>
  The derived fields of a cart are in step when \<open>subtotal\<close> is the sum of
  \<open>priceAtAdd * quantity\<close> over the items, \<open>totalDiscount\<close> is the number that the applied
  coupon carries as \<open>discountAmount\<close> (\<open>0\<close> without a coupon), and \<open>finalTotal\<close> is
  \<open>max 0 (subtotal - totalDiscount)\<close>.
\<close>

definition totals_hold :: "cart \<Rightarrow> bool" where
  "totals_hold c \<longleftrightarrow>
     subtotal c = (\<Sum>item\<leftarrow>items c. priceAtAdd item * quantity item) \<and>
     (case totalDiscount c of
        Undefined \<Rightarrow> False
      | Num d \<Rightarrow>
          (case coupon c of None \<Rightarrow> d = 0 | Some cc \<Rightarrow> discountAmount cc = Num d) \<and>
          finalTotal c = max 0 (subtotal c - d))"

text \<open>The coupon of a cart, if any, carries a number as its discount.\<close>

definition discount_is_number :: "cart \<Rightarrow> bool" where
  "discount_is_number c \<longleftrightarrow>
     (case coupon c of None \<Rightarrow> True | Some cc \<Rightarrow> discountAmount cc \<noteq> Undefined)"

section \<open>The validity rule as the specification words it\<close>

text \<open>
  Active, inside the window, and usage cap absent or not reached. The window is closed in
  one place of the specification and half-open in another; both readings are written down.
\<close>

definition isValid_spec_closed :: "coupon \<Rightarrow> date \<Rightarrow> bool" where
  "isValid_spec_closed cp now \<longleftrightarrow>
     isActive cp \<and> startDate cp \<le> now \<and> now \<le> endDate cp \<and>
     (maxUsage cp = None \<or> (\<exists>m. maxUsage cp = Some m \<and> usageCount cp < m))"

definition isValid_spec_half_open :: "coupon \<Rightarrow> date \<Rightarrow> bool" where
  "isValid_spec_half_open cp now \<longleftrightarrow>
     isActive cp \<and> startDate cp \<le> now \<and> now < endDate cp \<and>
     (maxUsage cp = None \<or> (\<exists>m. maxUsage cp = Some m \<and> usageCount cp < m))"

section \<open>Example data\<close>

text \<open>
  The products and the coupon of the scenarios: product \<open>P\<close> at 299 with five in stock,
  product \<open>Q\<close> at 500 with three in stock, and the coupon \<open>SAVE20\<close> (20 percent on \<open>P\<close>
  and on a product \<open>G\<close>), valid from time 100 to time 200. An item of a stored cart refers
  to its product by object id.
\<close>

definition product_P :: product where
  "product_P =
     \<lparr>p_id = ''P'', p_title = ''Fern'', p_sku = ''SKU-P'', p_images = [],
      p_attributes = ([], [], [], []), price = 299, stock = 5, p_isActive = True\<rparr>"

definition product_Q :: product where
  "product_Q =
     \<lparr>p_id = ''Q'', p_title = ''Pot'', p_sku = ''SKU-Q'', p_images = [],
      p_attributes = ([], [], [], []), price = 500, stock = 3, p_isActive = True\<rparr>"

definition item_of :: "object_id \<Rightarrow> product \<Rightarrow> int \<Rightarrow> cart_item" where
  "item_of iid prd qty =
     \<lparr>item_id = iid, productId = Ref (p_id prd),
      productSnapshot = \<lparr>title = p_title prd, sku = p_sku prd, image = None,
                         attributes = p_attributes prd\<rparr>,
      quantity = qty, priceAtAdd = price prd\<rparr>"

definition save20 :: coupon where
  "save20 =
     \<lparr>code = ''SAVE20'', discountType = ''percentage'', discountValue = 20,
      applicableProducts = [''P'', ''G''], startDate = 100, endDate = 200, isActive = True,
      usageCount = 0, maxUsage = None\<rparr>"

definition save20_applied :: "int \<Rightarrow> cart_coupon" where
  "save20_applied amount =
     \<lparr>cc_code = ''SAVE20'', cc_discountType = ''percentage'', cc_discountValue = 20,
      discountAmount = Num amount, cc_applicableProducts = [''P'', ''G'']\<rparr>"

text \<open>A stored cart of the guest session \<open>guest\<close>, its totals computed.\<close>

definition guest_cart :: "cart_item list \<Rightarrow> cart_coupon option \<Rightarrow> cart" where
  "guest_cart its cc =
     calculateFinalTotal ((new_Cart None (Some ''guest''))\<lparr>items := its, coupon := cc\<rparr>)"

text \<open>A stored cart of the user \<open>u1\<close>.\<close>

definition user_cart :: "cart_item list \<Rightarrow> cart_coupon option \<Rightarrow> cart" where
  "user_cart its cc =
     calculateFinalTotal ((new_Cart (Some ''u1'') None)\<lparr>items := its, coupon := cc\<rparr>)"

definition shop :: "product list \<Rightarrow> cart list \<Rightarrow> world" where
  "shop ps cs =
     \<lparr>products = ps, coupons = [save20], carts = cs, isValidObjectId = (\<lambda>s. s \<noteq> [])\<rparr>"

text \<open>An item as a load populates it: the product document in place of the id.\<close>

definition loaded_item :: "object_id \<Rightarrow> product \<Rightarrow> int \<Rightarrow> cart_item" where
  "loaded_item iid prd qty = (item_of iid prd qty)\<lparr>productId := Populated prd\<rparr>"

text \<open>The stored carts and shops of the scenarios.\<close>

definition cart_PQ :: cart where
  "cart_PQ =
     guest_cart [item_of ''i1'' product_P 1, item_of ''i2'' product_Q 1]
       (Some (save20_applied 60))"

definition shop_PQ :: world where
  "shop_PQ = shop [product_P, product_Q] [cart_PQ]"

definition cart_P3 :: cart where
  "cart_P3 = guest_cart [item_of ''i1'' product_P 3] (Some (save20_applied 179))"

definition shop_P_inactive_P3 :: world where
  "shop_P_inactive_P3 = shop [product_P\<lparr>p_isActive := False\<rparr>, product_Q] [cart_P3]"

definition shop_P_inactive_PQ :: world where
  "shop_P_inactive_PQ = shop [product_P\<lparr>p_isActive := False\<rparr>, product_Q] [cart_PQ]"

definition shop_Q_deleted :: world where
  "shop_Q_deleted = shop [product_P] [cart_PQ]"

definition cart_Q2 :: cart where
  "cart_Q2 = guest_cart [item_of ''i1'' product_Q 2] None"

definition shop_Q2 :: world where
  "shop_Q2 = shop [product_P, product_Q] [cart_Q2]"

definition cart_P3_plain :: cart where
  "cart_P3_plain = guest_cart [item_of ''i1'' product_P 3] None"

definition shop_P3_plain :: world where
  "shop_P3_plain = shop [product_P, product_Q] [cart_P3_plain]"

definition cart_P1 :: cart where
  "cart_P1 = guest_cart [item_of ''i1'' product_P 1] (Some (save20_applied 60))"

definition shop_P1 :: world where
  "shop_P1 = shop [product_P, product_Q] [cart_P1]"

definition cart_user_P1 :: cart where
  "cart_user_P1 = user_cart [item_of ''a1'' product_P 1] None"

definition cart_guest_P2 :: cart where
  "cart_guest_P2 = guest_cart [(item_of ''g1'' product_P 2)\<lparr>priceAtAdd := 250\<rparr>] None"

definition shop_merge :: world where
  "shop_merge = shop [product_P, product_Q] [cart_user_P1, cart_guest_P2]"

text \<open>A request of the guest session to add \<open>qty\<close> units of the product \<open>pid\<close>.\<close>

definition guest_add :: "object_id \<Rightarrow> int \<Rightarrow> add_request" where
  "guest_add pid qty =
     \<lparr>req_user = None, req_session = Some ''guest'', req_productId = Some pid,
      req_quantity = Some qty\<rparr>"

section \<open>Properties\<close>

subsection \<open>Evaluation of the example data\<close>

lemma Math_round_div_100: "Math_round (of_int m / 100) = (m + 50) div 100"
proof -
  have "(of_int m / 100 + 1 / 2 :: rat) = of_int (m + 50) / of_int 100"
    by simp
  then show ?thesis
    unfolding Math_round_def by (simp only: floor_divide_of_int_eq)
qed

text \<open>The discount in integer arithmetic.\<close>

lemma calculateDiscount_int:
  "calculateDiscount cp now cartItems =
     (if \<not> isValid cp now then Inr Bare_zero
      else
        (case applicable_loop (applicableProducts cp) cartItems 0 [] of
           Inl e \<Rightarrow> Inl e
         | Inr (applicableSubtotal, applicableItems) \<Rightarrow>
             if applicableSubtotal = 0 then Inr Bare_zero
             else Inr (Calc (if discountType cp = ''percentage''
                             then (applicableSubtotal * discountValue cp + 50) div 100 else 0)
                         applicableSubtotal applicableItems)))"
  unfolding calculateDiscount_def Math_round_div_100
  by (simp add: Let_def split: sum.splits prod.splits)

lemma isValid_save20_150: "isValid save20 150"
  by (simp add: isValid_def save20_def)

lemma findCoupon_shop: "findCoupon (shop ps cs) ''SAVE20'' = Some save20"
  by (simp add: findCoupon_def shop_def save20_def)

lemma toUpperCase_save20: "toUpperCase ''save20'' = ''SAVE20''"
  by code_simp

lemma items_guest_cart: "items (guest_cart its cc) = its"
  by (simp add: guest_cart_def new_Cart_def calculateFinalTotal_def calculateSubtotal_def Let_def
      split: number.splits)

lemma coupon_guest_cart: "coupon (guest_cart its cc) = cc"
  by (simp add: guest_cart_def new_Cart_def calculateFinalTotal_def calculateSubtotal_def Let_def
      split: number.splits)

lemma sessionId_guest_cart: "sessionId (guest_cart its cc) = Some ''guest''"
  by (simp add: guest_cart_def new_Cart_def calculateFinalTotal_def calculateSubtotal_def Let_def
      split: number.splits)

text \<open>The guest's cart of a shop is found by the session id and comes back populated.\<close>

lemma getOrCreateCart_guest:
  "getOrCreateCart (shop ps [guest_cart its cc]) None (Some ''guest'')
     = Some (populate (shop ps [guest_cart its cc]) (guest_cart its cc))"
  by (simp add: getOrCreateCart_def truthy_def shop_def sessionId_guest_cart)

subsection \<open>The discount calculation\<close>

text \<open>
  C2. \<open>calculateDiscount\<close> is to return an object
  \<open>{discountAmount, applicableSubtotal, applicableItems}\<close> for every coupon and item list,
  with a zero discount of that shape when the coupon is not valid or nothing applicable is
  in the cart. On an inactive coupon, and on a valid coupon with no applicable item, the
  code returns the bare number \<open>0\<close> instead, whose \<open>discountAmount\<close> reads
  \<^verbatim>\<open>undefined\<close>; that is not the zero the callers compare with.
\<close>

theorem calculateDiscount_returns_bare_zero:
  "calculateDiscount (save20\<lparr>isActive := False\<rparr>) 150 [item_of ''i1'' product_P 3]
     = Inr Bare_zero \<and>
   calculateDiscount save20 150 [item_of ''i2'' product_Q 1] = Inr Bare_zero \<and>
   discountAmount_of Bare_zero = Undefined \<and>
   \<not> js_is_zero (discountAmount_of Bare_zero)"
  by (simp add: calculateDiscount_def isValid_def save20_def item_of_def product_P_def
      product_Q_def discountAmount_of_def js_is_zero_def toString_def includes_string_def)

subsection \<open>Coupon validity\<close>

text \<open>
  C4, as amended. \<open>isValid\<close> holds exactly when the coupon is active, the time lies in the
  closed window from \<open>startDate\<close> to \<open>endDate\<close>, and the usage cap is \<^verbatim>\<open>null\<close>, or is
  \<open>0\<close>, or exceeds the usage count.
\<close>

theorem isValid_iff:
  "isValid cp now \<longleftrightarrow>
     isActive cp \<and> startDate cp \<le> now \<and> now \<le> endDate cp \<and>
     (maxUsage cp = None \<or> maxUsage cp = Some 0 \<or>
      (\<exists>m. maxUsage cp = Some m \<and> usageCount cp < m))"
  by (cases "maxUsage cp") (auto simp: isValid_def)

theorem isValid_iff_witness:
  "isValid save20 200 \<and> \<not> isValid save20 201 \<and> \<not> isValid (save20\<lparr>maxUsage := Some 5, usageCount := 5\<rparr>) 150"
  by (simp add: isValid_iff save20_def)

text \<open>
  C4 as stated fails on a usage cap of \<open>0\<close>: the coupon counts as unlimited, under either
  reading of the window. At \<open>endDate\<close> itself the coupon is valid, so the window is closed.
\<close>

theorem isValid_zero_cap_counterexample:
  "isValid (save20\<lparr>maxUsage := Some 0\<rparr>) 150 \<and>
   \<not> isValid_spec_closed (save20\<lparr>maxUsage := Some 0\<rparr>) 150 \<and>
   \<not> isValid_spec_half_open (save20\<lparr>maxUsage := Some 0\<rparr>) 150 \<and>
   isValid save20 200 \<and> \<not> isValid_spec_half_open save20 200"
  by (simp add: isValid_def isValid_spec_closed_def isValid_spec_half_open_def save20_def)

subsection \<open>The derived totals\<close>

lemma foldl_plus_sum_list:
  "foldl (\<lambda>total item. total + f item) a xs = a + (\<Sum>item\<leftarrow>xs. f item)" for a :: int
  by (induction xs arbitrary: a) simp_all

lemma items_calculateFinalTotal [simp]: "items (calculateFinalTotal c) = items c"
  by (simp add: calculateFinalTotal_def calculateSubtotal_def Let_def split: number.splits)

lemma coupon_calculateFinalTotal [simp]: "coupon (calculateFinalTotal c) = coupon c"
  by (simp add: calculateFinalTotal_def calculateSubtotal_def Let_def split: number.splits)

text \<open>When the discount of the coupon is a number, the recomputation puts the totals in step.\<close>

lemma totals_hold_calculateFinalTotal:
  "discount_is_number c \<Longrightarrow> totals_hold (calculateFinalTotal c)"
  by (cases "coupon c")
    (auto simp: totals_hold_def discount_is_number_def calculateFinalTotal_def
      calculateSubtotal_def Let_def foldl_plus_sum_list Math_max0_def js_minus_def
      split: jsval.splits)

text \<open>The carts of the scenarios as they are loaded.\<close>

lemma populate_cart_PQ:
  "populate shop_PQ cart_PQ =
     cart_PQ\<lparr>items := [loaded_item ''i1'' product_P 1, loaded_item ''i2'' product_Q 1]\<rparr>"
  by (simp add: populate_def populate_ref_def cart_PQ_def items_guest_cart shop_PQ_def shop_def
      findProduct_def item_of_def loaded_item_def product_P_def product_Q_def)

lemma totals_cart_PQ:
  "subtotal cart_PQ = 799 \<and> totalDiscount cart_PQ = Num 60 \<and> finalTotal cart_PQ = 739 \<and>
   coupon cart_PQ = Some (save20_applied 60)"
  by (simp add: cart_PQ_def guest_cart_def new_Cart_def calculateFinalTotal_def
      calculateSubtotal_def Math_max0_def js_minus_def save20_applied_def item_of_def
      product_P_def product_Q_def Let_def)

text \<open>No line of a loaded cart is counted by the discount calculation.\<close>

lemma calculateDiscount_loaded_PQ:
  "calculateDiscount save20 150 [loaded_item ''i1'' product_P 1, loaded_item ''i2'' product_Q 1]
     = Inr Bare_zero"
  by (simp add: calculateDiscount_def isValid_save20_150 save20_def loaded_item_def
      toString_def includes_string_def)

text \<open>
  C1. The totals of every cart that a cart method produces are to be in step:
  \<open>subtotal\<close> the sum over the items, \<open>totalDiscount\<close> the discount amount of the coupon,
  \<open>finalTotal = max 0 (subtotal - totalDiscount)\<close>. The guest cart of one \<open>P\<close> and one
  \<open>Q\<close> with \<open>SAVE20\<close> applied (60) is in step when it is loaded, with a final total of
  739. A read at time 150 computes the bare \<open>0\<close> as its discount and calls \<open>applyCoupon\<close>
  with it: in the cart that this produces the coupon has no discount amount,
  \<open>totalDiscount\<close> is \<^verbatim>\<open>undefined\<close>, and \<open>finalTotal\<close> is still 739 beside a subtotal of
  799.
\<close>

theorem applyCoupon_bare_zero_breaks_totals:
  "getOrCreateCart shop_PQ None (Some ''guest'') = Some (populate shop_PQ cart_PQ) \<and>
   totals_hold (populate shop_PQ cart_PQ) \<and>
   calculateDiscount save20 150 (items (populate shop_PQ cart_PQ)) = Inr Bare_zero \<and>
   coupon (applyCoupon (populate shop_PQ cart_PQ) save20 Bare_zero)
     = Some \<lparr>cc_code = ''SAVE20'', cc_discountType = ''percentage'', cc_discountValue = 20,
             discountAmount = Undefined, cc_applicableProducts = [''P'', ''G'']\<rparr> \<and>
   subtotal (applyCoupon (populate shop_PQ cart_PQ) save20 Bare_zero) = 799 \<and>
   totalDiscount (applyCoupon (populate shop_PQ cart_PQ) save20 Bare_zero) = Undefined \<and>
   finalTotal (applyCoupon (populate shop_PQ cart_PQ) save20 Bare_zero) = 739 \<and>
   \<not> totals_hold (applyCoupon (populate shop_PQ cart_PQ) save20 Bare_zero)"
proof -
  let ?c = "populate shop_PQ cart_PQ"
  have g: "getOrCreateCart shop_PQ None (Some ''guest'') = Some ?c"
    unfolding shop_PQ_def cart_PQ_def by (rule getOrCreateCart_guest)
  have t: "totals_hold ?c"
    unfolding populate_cart_PQ using totals_cart_PQ
    by (simp add: totals_hold_def loaded_item_def item_of_def product_P_def product_Q_def
        save20_applied_def)
  have d: "calculateDiscount save20 150 (items ?c) = Inr Bare_zero"
    unfolding populate_cart_PQ by (simp add: calculateDiscount_loaded_PQ)
  have a: "applyCoupon ?c save20 Bare_zero =
             ?c\<lparr>coupon := Some \<lparr>cc_code = ''SAVE20'', cc_discountType = ''percentage'',
                                 cc_discountValue = 20, discountAmount = Undefined,
                                 cc_applicableProducts = [''P'', ''G'']\<rparr>,
                subtotal := 799, totalDiscount := Undefined\<rparr>"
    unfolding populate_cart_PQ
    by (simp add: applyCoupon_def discountAmount_of_def save20_def calculateFinalTotal_def
        calculateSubtotal_def Math_max0_def js_minus_def loaded_item_def item_of_def
        product_P_def product_Q_def Let_def)
  have f: "finalTotal ?c = 739"
    unfolding populate_cart_PQ using totals_cart_PQ by simp
  show ?thesis
    using g t d f by (simp add: a totals_hold_def)
qed

subsection \<open>Updating a quantity\<close>

lemma find_item_None:
  "find (\<lambda>item. item_id item = itemId) xs = None \<longleftrightarrow> (\<forall>item\<in>set xs. item_id item \<noteq> itemId)"
  by (auto simp: find_None_iff)

lemma set_quantity_of_first:
  "k < length xs \<Longrightarrow> item_id (xs ! k) = itemId \<Longrightarrow> \<forall>j<k. item_id (xs ! j) \<noteq> itemId \<Longrightarrow>
     set_quantity_of itemId n xs = xs[k := (xs ! k)\<lparr>quantity := n\<rparr>]"
proof (induction xs arbitrary: k)
  case Nil
  then show ?case by simp
next
  case (Cons x xs)
  show ?case
  proof (cases k)
    case 0
    then show ?thesis using Cons.prems by simp
  next
    case (Suc k')
    have "item_id x \<noteq> itemId" using Cons.prems(3) Suc by auto
    moreover have "\<forall>j<k'. item_id (xs ! j) \<noteq> itemId"
      using Cons.prems(3) Suc by auto
    ultimately show ?thesis using Cons.IH [of k'] Cons.prems Suc by simp
  qed
qed

text \<open>
  C9. With a new quantity of zero or less \<open>updateItemQuantity\<close> is \<open>removeItem\<close>. With a
  new quantity of one or more: when the cart has an item with that id, the first such item
  gets the quantity and the totals are recomputed (which puts them in step when the
  discount of the coupon is a number); when it has none, the cart is returned as it was.
\<close>

theorem updateItemQuantity_cases:
  "(newQuantity \<le> 0 \<longrightarrow> updateItemQuantity c itemId newQuantity = removeItem c itemId) \<and>
   (1 \<le> newQuantity \<longrightarrow>
      (\<forall>k. k < length (items c) \<and> item_id (items c ! k) = itemId \<and>
           (\<forall>j<k. item_id (items c ! j) \<noteq> itemId) \<longrightarrow>
           updateItemQuantity c itemId newQuantity =
             Inr (calculateFinalTotal
                    (c\<lparr>items := (items c)[k := (items c ! k)\<lparr>quantity := newQuantity\<rparr>]\<rparr>)) \<and>
           (discount_is_number c \<longrightarrow>
              totals_hold
                (calculateFinalTotal
                   (c\<lparr>items := (items c)[k := (items c ! k)\<lparr>quantity := newQuantity\<rparr>]\<rparr>))))) \<and>
   (1 \<le> newQuantity \<and> (\<forall>item\<in>set (items c). item_id item \<noteq> itemId) \<longrightarrow>
      updateItemQuantity c itemId newQuantity = Inr c)"
proof (intro conjI impI allI)
  assume "newQuantity \<le> 0"
  then show "updateItemQuantity c itemId newQuantity = removeItem c itemId"
    by (simp add: updateItemQuantity_def)
next
  fix k
  assume n: "1 \<le> newQuantity"
    and k: "k < length (items c) \<and> item_id (items c ! k) = itemId \<and>
            (\<forall>j<k. item_id (items c ! j) \<noteq> itemId)"
  from k have "items c ! k \<in> set (items c)" by simp
  with k have "find (\<lambda>item. item_id item = itemId) (items c) \<noteq> None"
    by (auto simp: find_item_None)
  then obtain item where f: "find (\<lambda>item. item_id item = itemId) (items c) = Some item"
    by auto
  have s: "set_quantity_of itemId newQuantity (items c) =
             (items c)[k := (items c ! k)\<lparr>quantity := newQuantity\<rparr>]"
    using k by (simp add: set_quantity_of_first)
  show "updateItemQuantity c itemId newQuantity =
          Inr (calculateFinalTotal
                 (c\<lparr>items := (items c)[k := (items c ! k)\<lparr>quantity := newQuantity\<rparr>]\<rparr>))"
    using n f s by (simp add: updateItemQuantity_def)
next
  fix k
  assume "discount_is_number c"
  then have "discount_is_number
               (c\<lparr>items := (items c)[k := (items c ! k)\<lparr>quantity := newQuantity\<rparr>]\<rparr>)"
    by (simp add: discount_is_number_def)
  then show "totals_hold
               (calculateFinalTotal
                  (c\<lparr>items := (items c)[k := (items c ! k)\<lparr>quantity := newQuantity\<rparr>]\<rparr>))"
    by (rule totals_hold_calculateFinalTotal)
next
  assume "1 \<le> newQuantity \<and> (\<forall>item\<in>set (items c). item_id item \<noteq> itemId)"
  then show "updateItemQuantity c itemId newQuantity = Inr c"
    by (simp add: updateItemQuantity_def find_item_None [symmetric])
qed

text \<open>
  A cart with two units of \<open>P\<close>: quantity 0 removes the item, quantity 3 on the item gives
  a subtotal of 897, and quantity 3 on an unknown id changes nothing.
\<close>

theorem updateItemQuantity_cases_witness:
  "updateItemQuantity (guest_cart [item_of ''i1'' product_P 2] None) ''i1'' 0
     = removeItem (guest_cart [item_of ''i1'' product_P 2] None) ''i1'' \<and>
   updateItemQuantity (guest_cart [item_of ''i1'' product_P 2] None) ''i1'' 3
     = Inr (guest_cart [item_of ''i1'' product_P 3] None) \<and>
   subtotal (guest_cart [item_of ''i1'' product_P 3] None) = 897 \<and>
   totals_hold (guest_cart [item_of ''i1'' product_P 3] None) \<and>
   updateItemQuantity (guest_cart [item_of ''i1'' product_P 2] None) ''zz'' 3
     = Inr (guest_cart [item_of ''i1'' product_P 2] None)"
proof -
  let ?c = "guest_cart [item_of ''i1'' product_P 2] None"
  have its: "items ?c = [item_of ''i1'' product_P 2]"
    by (rule items_guest_cart)
  have dn: "discount_is_number ?c"
    by (simp add: discount_is_number_def coupon_guest_cart)
  note u = updateItemQuantity_cases [of _ ?c]
  have a: "updateItemQuantity ?c ''i1'' 0 = removeItem ?c ''i1''"
    using u [of 0 "''i1''"] by simp
  have b: "updateItemQuantity ?c ''i1'' 3 =
             Inr (calculateFinalTotal
                    (?c\<lparr>items := (items ?c)[0 := (items ?c ! 0)\<lparr>quantity := 3\<rparr>]\<rparr>))"
    and t: "totals_hold
              (calculateFinalTotal
                 (?c\<lparr>items := (items ?c)[0 := (items ?c ! 0)\<lparr>quantity := 3\<rparr>]\<rparr>))"
    using u [of 3 "''i1''"] dn unfolding its by (simp_all add: item_of_def)
  have d: "updateItemQuantity ?c ''zz'' 3 = Inr ?c"
    using u [of 3 "''zz''"] unfolding its by (simp add: item_of_def)
  have e: "calculateFinalTotal (?c\<lparr>items := (items ?c)[0 := (items ?c ! 0)\<lparr>quantity := 3\<rparr>]\<rparr>)
             = guest_cart [item_of ''i1'' product_P 3] None"
    by (simp add: guest_cart_def new_Cart_def item_of_def calculateFinalTotal_def
        calculateSubtotal_def Math_max0_def js_minus_def Let_def)
  have s: "subtotal (guest_cart [item_of ''i1'' product_P 3] None) = 897"
    by (simp add: guest_cart_def new_Cart_def item_of_def product_P_def calculateFinalTotal_def
        calculateSubtotal_def Math_max0_def js_minus_def Let_def)
  show ?thesis using a b t d s unfolding e by simp
qed

subsection \<open>Reading the cart\<close>

lemma populate_cart_P3_inactive:
  "populate shop_P_inactive_P3 cart_P3 =
     cart_P3\<lparr>items := [loaded_item ''i1'' (product_P\<lparr>p_isActive := False\<rparr>) 3]\<rparr>"
  by (simp add: populate_def populate_ref_def cart_P3_def items_guest_cart
      shop_P_inactive_P3_def shop_def findProduct_def item_of_def loaded_item_def product_P_def)

lemma totals_cart_P3:
  "subtotal cart_P3 = 897 \<and> totalDiscount cart_P3 = Num 179 \<and> finalTotal cart_P3 = 718 \<and>
   coupon cart_P3 = Some (save20_applied 179) \<and> sessionId cart_P3 = Some ''guest'' \<and>
   userId cart_P3 = None \<and> currency cart_P3 = ''INR''"
  by (simp add: cart_P3_def guest_cart_def new_Cart_def calculateFinalTotal_def
      calculateSubtotal_def Math_max0_def js_minus_def save20_applied_def item_of_def
      product_P_def Let_def)

text \<open>
  C3. After the pruning of a cart read, an applied coupon that is no longer valid is to be
  removed and reported. At time 300 \<open>SAVE20\<close> has expired and \<open>P\<close> is inactive: the read of
  the guest cart of three \<open>P\<close> drops and reports the item, the save accepts the emptied
  cart, and the expired coupon is still applied to it, with nothing reported about it.
\<close>

theorem getCart_keeps_expired_coupon:
  "\<not> isValid save20 300 \<and>
   findCoupon shop_P_inactive_P3 ''SAVE20'' = Some save20 \<and>
   getCart shop_P_inactive_P3 300 300 None (Some ''guest'')
     = Inr ([(''Fern'', Product_no_longer_available)],
            guest_cart [] (Some (save20_applied 179))) \<and>
   coupon (guest_cart [] (Some (save20_applied 179))) = Some (save20_applied 179)"
proof -
  let ?w = "shop_P_inactive_P3"
  have v: "\<not> isValid save20 300" by (simp add: isValid_def save20_def)
  have fc: "findCoupon ?w ''SAVE20'' = Some save20"
    unfolding shop_P_inactive_P3_def by (rule findCoupon_shop)
  have g: "getOrCreateCart ?w None (Some ''guest'') = Some (populate ?w cart_P3)"
    unfolding shop_P_inactive_P3_def cart_P3_def by (rule getOrCreateCart_guest)
  have l: "revalidate_items ?w (items (populate ?w cart_P3)) [] []
             = ([], [(''Fern'', Product_no_longer_available)])"
    unfolding populate_cart_P3_inactive
    by (simp add: findById_ref_def findProduct_def shop_P_inactive_P3_def shop_def
        loaded_item_def item_of_def product_P_def)
  have e: "calculateFinalTotal ((populate ?w cart_P3)\<lparr>items := []\<rparr>)
             = guest_cart [] (Some (save20_applied 179))"
    unfolding populate_cart_P3_inactive
    by (simp add: cart_P3_def guest_cart_def new_Cart_def calculateFinalTotal_def
        calculateSubtotal_def Math_max0_def js_minus_def save20_applied_def Let_def)
  have s: "save_accepts (guest_cart [] (Some (save20_applied 179)))"
    by (simp add: save_accepts_def guest_cart_def new_Cart_def calculateFinalTotal_def
        calculateSubtotal_def Math_max0_def js_minus_def save20_applied_def Let_def)
  have r: "getCart ?w 300 300 None (Some ''guest'')
             = Inr ([(''Fern'', Product_no_longer_available)],
                    guest_cart [] (Some (save20_applied 179)))"
    by (simp add: getCart_def g l revalidate_coupon_def e s)
  show ?thesis using v fc r by (simp add: coupon_guest_cart)
qed

text \<open>
  A read of a stored cart with a valid coupon and an item left: no populated line counts,
  the calculation is the bare \<open>0\<close>, the coupon is stored again without a discount amount,
  the save rejects the cart and the handler answers 500.
\<close>

lemma getCart_valid_coupon_answers_500:
  "getCart shop_PQ 150 150 None (Some ''guest'') = Inl (500, Failed_to_fetch_cart)"
proof -
  let ?c = "populate shop_PQ cart_PQ"
  have g: "getOrCreateCart shop_PQ None (Some ''guest'') = Some ?c"
    unfolding shop_PQ_def cart_PQ_def by (rule getOrCreateCart_guest)
  have l: "revalidate_items shop_PQ (items ?c) [] [] = (items ?c, [])"
    unfolding populate_cart_PQ
    by (simp add: findById_ref_def findProduct_def shop_PQ_def shop_def loaded_item_def
        item_of_def product_P_def product_Q_def)
  have i: "?c\<lparr>items := items ?c\<rparr> = ?c" by simp
  have cp: "coupon ?c = Some (save20_applied 60)"
    unfolding populate_cart_PQ using totals_cart_PQ by simp
  have fc: "findCoupon shop_PQ (cc_code (save20_applied 60)) = Some save20"
    unfolding shop_PQ_def by (simp add: save20_applied_def findCoupon_shop)
  have d: "calculateDiscount save20 150 (items ?c) = Inr Bare_zero"
    unfolding populate_cart_PQ by (simp add: calculateDiscount_loaded_PQ)
  have ne: "items ?c \<noteq> []" unfolding populate_cart_PQ by simp
  have rc: "revalidate_coupon shop_PQ 150 150 ?c [] = Inr (applyCoupon ?c save20 Bare_zero, [])"
    using cp fc d ne
    by (simp add: revalidate_coupon_def isValid_save20_150 discountAmount_of_def
        js_is_zero_def)
  have cc: "coupon (applyCoupon ?c save20 Bare_zero)
              = Some \<lparr>cc_code = code save20, cc_discountType = discountType save20,
                      cc_discountValue = discountValue save20, discountAmount = Undefined,
                      cc_applicableProducts = applicableProducts save20\<rparr>"
    by (simp add: applyCoupon_def discountAmount_of_def)
  have ns: "\<not> save_accepts (calculateFinalTotal (applyCoupon ?c save20 Bare_zero))"
    by (simp add: save_accepts_def cc)
  show ?thesis
    by (simp add: getCart_def g l i rc ns)
qed

lemma populate_cart_PQ_inactive:
  "populate shop_P_inactive_PQ cart_PQ =
     cart_PQ\<lparr>items := [loaded_item ''i1'' (product_P\<lparr>p_isActive := False\<rparr>) 1,
                       loaded_item ''i2'' product_Q 1]\<rparr>"
  by (simp add: populate_def populate_ref_def cart_PQ_def items_guest_cart
      shop_P_inactive_PQ_def shop_def findProduct_def item_of_def loaded_item_def product_P_def
      product_Q_def)

text \<open>
  The same at a read that prunes: with \<open>P\<close> inactive only \<open>Q\<close> is left, to which the
  coupon does not apply, and the handler answers 500 instead of removing the coupon.
\<close>

lemma getCart_pruned_cart_answers_500:
  "getCart shop_P_inactive_PQ 150 150 None (Some ''guest'') = Inl (500, Failed_to_fetch_cart)"
proof -
  let ?w = "shop_P_inactive_PQ"
  let ?c = "populate ?w cart_PQ"
  let ?c1 = "?c\<lparr>items := [loaded_item ''i2'' product_Q 1]\<rparr>"
  have g: "getOrCreateCart ?w None (Some ''guest'') = Some ?c"
    unfolding shop_P_inactive_PQ_def cart_PQ_def by (rule getOrCreateCart_guest)
  have l: "revalidate_items ?w (items ?c) [] []
             = ([loaded_item ''i2'' product_Q 1], [(''Fern'', Product_no_longer_available)])"
    unfolding populate_cart_PQ_inactive
    by (simp add: findById_ref_def findProduct_def shop_P_inactive_PQ_def shop_def
        loaded_item_def item_of_def product_P_def product_Q_def)
  have cp: "coupon ?c1 = Some (save20_applied 60)"
    unfolding populate_cart_PQ_inactive using totals_cart_PQ by simp
  have fc: "findCoupon ?w (cc_code (save20_applied 60)) = Some save20"
    unfolding shop_P_inactive_PQ_def by (simp add: save20_applied_def findCoupon_shop)
  have d: "calculateDiscount save20 150 [loaded_item ''i2'' product_Q 1] = Inr Bare_zero"
    by (simp add: calculateDiscount_def isValid_save20_150 save20_def loaded_item_def
        toString_def includes_string_def)
  have rc: "revalidate_coupon ?w 150 150 ?c1 [(''Fern'', Product_no_longer_available)]
              = Inr (applyCoupon ?c1 save20 Bare_zero,
                     [(''Fern'', Product_no_longer_available)])"
    using cp fc d
    by (simp add: revalidate_coupon_def isValid_save20_150 discountAmount_of_def
        js_is_zero_def)
  have cc: "coupon (applyCoupon ?c1 save20 Bare_zero)
              = Some \<lparr>cc_code = code save20, cc_discountType = discountType save20,
                      cc_discountValue = discountValue save20, discountAmount = Undefined,
                      cc_applicableProducts = applicableProducts save20\<rparr>"
    by (simp add: applyCoupon_def discountAmount_of_def)
  have ns: "\<not> save_accepts (calculateFinalTotal (applyCoupon ?c1 save20 Bare_zero))"
    by (simp add: save_accepts_def cc)
  show ?thesis
    by (simp add: getCart_def g l rc ns)
qed

subsection \<open>Removing an item\<close>

text \<open>
  The test of \<^verbatim>\<open>removeItem\<close> is false when every item has its product and none reads
  as a product of the list; a populated reference never does.
\<close>

lemma hasApplicableProducts_False:
  assumes "\<forall>item\<in>set xs.
             (case productId item of
                Ref i \<Rightarrow> i \<notin> set ids
              | Populated p \<Rightarrow> True
              | Populated_null \<Rightarrow> False)"
  shows "hasApplicableProducts ids xs = Inr False"
  using assms
  by (induction xs)
    (auto simp: toString_def includes_string_def list_ex_iff split: product_ref.splits)

text \<open>
  What \<open>removeItem\<close> does on a cart with a coupon whose remaining lines all have their
  product: it returns the cart without the items of that id, and the coupon is cleared and
  the totals are in step when nothing remains, and when no remaining line is a product of
  the coupon's list (for a populated line, whatever its product).
\<close>

lemma removeItem_clears_coupon:
  assumes "coupon c = Some cc"
    and "\<forall>item\<in>set (filter (\<lambda>item. item_id item \<noteq> itemId) (items c)).
           (case productId item of
              Ref i \<Rightarrow> i \<notin> set (cc_applicableProducts cc)
            | Populated p \<Rightarrow> True
            | Populated_null \<Rightarrow> False)"
  shows "\<exists>c'. removeItem c itemId = Inr c' \<and>
              items c' = filter (\<lambda>item. item_id item \<noteq> itemId) (items c) \<and>
              coupon c' = None \<and> totals_hold c'"
proof -
  let ?rem = "filter (\<lambda>item. item_id item \<noteq> itemId) (items c)"
  let ?c1 = "calculateFinalTotal (c\<lparr>items := ?rem\<rparr>)"
  have h: "hasApplicableProducts (cc_applicableProducts cc) ?rem = Inr False"
    using assms(2) by (rule hasApplicableProducts_False)
  have r: "removeItem c itemId = Inr (calculateFinalTotal (?c1\<lparr>coupon := None\<rparr>))"
    using assms(1) h by (simp add: removeItem_def Let_def)
  have t: "totals_hold (calculateFinalTotal (?c1\<lparr>coupon := None\<rparr>))"
    by (rule totals_hold_calculateFinalTotal) (simp add: discount_is_number_def)
  show ?thesis using r t by simp
qed

lemma populate_cart_PQ_deleted:
  "populate shop_Q_deleted cart_PQ =
     cart_PQ\<lparr>items := [loaded_item ''i1'' product_P 1,
                       (item_of ''i2'' product_Q 1)\<lparr>productId := Populated_null\<rparr>]\<rparr>"
  by (simp add: populate_def populate_ref_def cart_PQ_def items_guest_cart shop_Q_deleted_def
      shop_def findProduct_def item_of_def loaded_item_def product_P_def product_Q_def)

text \<open>
  C5. After \<open>removeItem\<close> on a cart with a coupon, the coupon is to be cleared, and the
  totals recomputed, when items remain and none of them is a product of the coupon's list.
  The guest cart holds one \<open>P\<close> and one \<open>Q\<close> with \<open>SAVE20\<close> applied, and \<open>Q\<close> has been
  deleted from the catalogue, so the loaded line of \<open>Q\<close> has \<^verbatim>\<open>null\<close> for its product.
  Removing the line of \<open>P\<close> leaves the line of \<open>Q\<close>, which is no product of the coupon's
  list; \<open>removeItem\<close> throws on it instead of clearing the coupon.
\<close>

theorem removeItem_throws_on_deleted_product:
  "getOrCreateCart shop_Q_deleted None (Some ''guest'') = Some (populate shop_Q_deleted cart_PQ) \<and>
   coupon (populate shop_Q_deleted cart_PQ) = Some (save20_applied 60) \<and>
   map item_id (items (populate shop_Q_deleted cart_PQ)) = [''i1'', ''i2''] \<and>
   map productId (items (populate shop_Q_deleted cart_PQ))
     = [Populated product_P, Populated_null] \<and>
   removeItem (populate shop_Q_deleted cart_PQ) ''i1'' = Inl TypeError"
proof -
  let ?c = "populate shop_Q_deleted cart_PQ"
  have g: "getOrCreateCart shop_Q_deleted None (Some ''guest'') = Some ?c"
    unfolding shop_Q_deleted_def cart_PQ_def by (rule getOrCreateCart_guest)
  have cp: "coupon ?c = Some (save20_applied 60)"
    unfolding populate_cart_PQ_deleted using totals_cart_PQ by simp
  have i: "map item_id (items ?c) = [''i1'', ''i2'']"
    and p: "map productId (items ?c) = [Populated product_P, Populated_null]"
    unfolding populate_cart_PQ_deleted by (simp_all add: loaded_item_def item_of_def)
  have r: "removeItem ?c ''i1'' = Inl TypeError"
    using cp unfolding populate_cart_PQ_deleted
    by (simp add: removeItem_def Let_def loaded_item_def item_of_def save20_applied_def
        toString_def)
  show ?thesis using g cp i p r by simp
qed

subsection \<open>Adding to a stored cart\<close>

lemma populate_cart_Q2:
  "populate shop_Q2 cart_Q2 = cart_Q2\<lparr>items := [loaded_item ''i1'' product_Q 2]\<rparr>"
  by (simp add: populate_def populate_ref_def cart_Q2_def items_guest_cart shop_Q2_def shop_def
      findProduct_def item_of_def loaded_item_def product_P_def product_Q_def)

lemma totals_cart_Q2:
  "subtotal cart_Q2 = 1000 \<and> totalDiscount cart_Q2 = Num 0 \<and> finalTotal cart_Q2 = 1000 \<and>
   coupon cart_Q2 = None"
  by (simp add: cart_Q2_def guest_cart_def new_Cart_def calculateFinalTotal_def
      calculateSubtotal_def Math_max0_def js_minus_def item_of_def product_Q_def Let_def)

text \<open>
  C7. An add-to-cart request is to fail with the insufficient-stock answer, and leave the
  cart as it was, when the quantity in the cart plus the requested quantity exceeds the
  stock; with a stock of 3 and 2 in the cart, a request for 2 more is to be rejected with
  \<open>maxAllowed = 1\<close>. The stock of \<open>Q\<close> is 3 and the stored guest cart holds two \<open>Q\<close>.
  The handler does not find the loaded line of \<open>Q\<close>, checks the stock against an existing
  quantity of 0, and answers with a success: the cart then holds a second line of two
  \<open>Q\<close>, four units in all. (\<open>validateStock\<close> itself, given the 2 in the cart, gives the
  rejection with \<open>maxAllowed = 1\<close>.)
\<close>

theorem addToCart_accepts_beyond_stock:
  "stock product_Q = 3 \<and>
   getOrCreateCart shop_Q2 None (Some ''guest'') = Some (populate shop_Q2 cart_Q2) \<and>
   items (populate shop_Q2 cart_Q2) = [loaded_item ''i1'' product_Q 2] \<and>
   find_existing ''Q'' (items (populate shop_Q2 cart_Q2)) = Inr None \<and>
   addToCart shop_Q2 150 150 ''n1'' (guest_add ''Q'' 2)
     = (Success Item_added_to_cart,
        Some ((populate shop_Q2 cart_Q2)
                \<lparr>items := [loaded_item ''i1'' product_Q 2, item_of ''n1'' product_Q 2],
                 subtotal := 2000, finalTotal := 2000\<rparr>)) \<and>
   validateStock product_Q 2 2
     = Inr (Stock_invalid 1 (Only_units_available 3 ''Pot'' 2))"
proof -
  let ?w = "shop_Q2"
  let ?c = "populate shop_Q2 cart_Q2"
  let ?c1 = "?c\<lparr>items := [loaded_item ''i1'' product_Q 2, item_of ''n1'' product_Q 2],
                subtotal := 2000, finalTotal := 2000\<rparr>"
  have st: "stock product_Q = 3" by (simp add: product_Q_def)
  have g: "getOrCreateCart ?w None (Some ''guest'') = Some ?c"
    unfolding shop_Q2_def cart_Q2_def by (rule getOrCreateCart_guest)
  have its: "items ?c = [loaded_item ''i1'' product_Q 2]"
    unfolding populate_cart_Q2 by simp
  have cp: "coupon ?c = None"
    unfolding populate_cart_Q2 using totals_cart_Q2 by simp
  have fe: "find_existing ''Q'' (items ?c) = Inr None"
    unfolding its by (simp add: productId_is_def toString_def loaded_item_def)
  have fp: "findProduct ?w ''Q'' = Some product_Q"
    by (simp add: findProduct_def shop_Q2_def shop_def product_P_def product_Q_def)
  have ok: "isValidObjectId ?w ''Q''"
    by (simp add: shop_Q2_def shop_def)
  have vs: "validateStock product_Q 2 0 = Inr Stock_valid"
    by (simp add: validateStock_def product_Q_def)
  have vs2: "validateStock product_Q 2 2
               = Inr (Stock_invalid 1 (Only_units_available 3 ''Pot'' 2))"
    by (simp add: validateStock_def product_Q_def)
  have ai: "addItem ?c product_Q 2 (price product_Q) ''n1'' = Inr ?c1"
    unfolding populate_cart_Q2 using totals_cart_Q2
    by (simp add: addItem_def findIndex_def productId_is_def toString_def loaded_item_def
        item_of_def product_Q_def calculateFinalTotal_def calculateSubtotal_def Math_max0_def
        js_minus_def Let_def)
  have cp1: "coupon ?c1 = None" using cp by simp
  have rv: "revalidate_after_add ?w 150 150 ''Q'' ?c1 = Inr ?c1"
    using cp1 by (simp add: revalidate_after_add_def)
  have sa: "save_accepts ?c1"
    unfolding populate_cart_Q2 using totals_cart_Q2
    by (simp add: save_accepts_def loaded_item_def item_of_def product_Q_def)
  have r: "addToCart ?w 150 150 ''n1'' (guest_add ''Q'' 2) = (Success Item_added_to_cart, Some ?c1)"
    by (simp add: addToCart_def guest_add_def truthy_def ok fp g fe vs ai rv sa
        del: One_nat_def)
  show ?thesis using st g its fe r vs2 by simp
qed

lemma populate_cart_P1:
  "populate shop_P1 cart_P1 = cart_P1\<lparr>items := [loaded_item ''i1'' product_P 1]\<rparr>"
  by (simp add: populate_def populate_ref_def cart_P1_def items_guest_cart shop_P1_def shop_def
      findProduct_def item_of_def loaded_item_def product_P_def)

lemma totals_cart_P1:
  "subtotal cart_P1 = 299 \<and> totalDiscount cart_P1 = Num 60 \<and> finalTotal cart_P1 = 239 \<and>
   coupon cart_P1 = Some (save20_applied 60)"
  by (simp add: cart_P1_def guest_cart_def new_Cart_def calculateFinalTotal_def
      calculateSubtotal_def Math_max0_def js_minus_def save20_applied_def item_of_def
      product_P_def Let_def)

text \<open>
  C10. After an add to a cart with a coupon, a coupon that is kept is to have its discount
  recomputed over all items. The stored guest cart holds one \<open>P\<close> (299) with \<open>SAVE20\<close>
  applied, a discount of 60. One more \<open>P\<close> is added at time 150: the coupon is found, is
  valid and applies to \<open>P\<close>, so it is kept. The cart then holds two lines of one \<open>P\<close>,
  a subtotal of 598, and the discount is computed on the new line alone: it is 60 again,
  and the final total 538. Over both lines the discount is 120.
\<close>

theorem addToCart_discount_on_new_line_only:
  "getOrCreateCart shop_P1 None (Some ''guest'') = Some (populate shop_P1 cart_P1) \<and>
   items (populate shop_P1 cart_P1) = [loaded_item ''i1'' product_P 1] \<and>
   coupon (populate shop_P1 cart_P1) = Some (save20_applied 60) \<and>
   totalDiscount (populate shop_P1 cart_P1) = Num 60 \<and>
   addToCart shop_P1 150 150 ''n1'' (guest_add ''P'' 1)
     = (Success Item_added_to_cart,
        Some ((populate shop_P1 cart_P1)
                \<lparr>items := [loaded_item ''i1'' product_P 1, item_of ''n1'' product_P 1],
                 subtotal := 598, finalTotal := 538\<rparr>)) \<and>
   calculateDiscount save20 150 [loaded_item ''i1'' product_P 1, item_of ''n1'' product_P 1]
     = Inr (Calc 60 299 [item_of ''n1'' product_P 1]) \<and>
   calculateDiscount save20 150 [item_of ''i1'' product_P 1, item_of ''n1'' product_P 1]
     = Inr (Calc 120 598 [item_of ''i1'' product_P 1, item_of ''n1'' product_P 1])"
proof -
  let ?w = "shop_P1"
  let ?c = "populate shop_P1 cart_P1"
  let ?its = "[loaded_item ''i1'' product_P 1, item_of ''n1'' product_P 1]"
  let ?c1 = "?c\<lparr>items := ?its, subtotal := 598, finalTotal := 538\<rparr>"
  have g: "getOrCreateCart ?w None (Some ''guest'') = Some ?c"
    unfolding shop_P1_def cart_P1_def by (rule getOrCreateCart_guest)
  have its: "items ?c = [loaded_item ''i1'' product_P 1]"
    unfolding populate_cart_P1 by simp
  have cp: "coupon ?c = Some (save20_applied 60)"
    and td: "totalDiscount ?c = Num 60"
    unfolding populate_cart_P1 using totals_cart_P1 by simp_all
  have fe: "find_existing ''P'' (items ?c) = Inr None"
    unfolding its by (simp add: productId_is_def toString_def loaded_item_def)
  have fp: "findProduct ?w ''P'' = Some product_P"
    by (simp add: findProduct_def shop_P1_def shop_def product_P_def)
  have ok: "isValidObjectId ?w ''P''"
    by (simp add: shop_P1_def shop_def)
  have vs: "validateStock product_P 1 0 = Inr Stock_valid"
    by (simp add: validateStock_def product_P_def)
  have ai: "addItem ?c product_P 1 (price product_P) ''n1'' = Inr ?c1"
    unfolding populate_cart_P1 using totals_cart_P1
    by (simp add: addItem_def findIndex_def productId_is_def toString_def loaded_item_def
        item_of_def product_P_def calculateFinalTotal_def calculateSubtotal_def Math_max0_def
        js_minus_def save20_applied_def Let_def)
  have cp1: "coupon ?c1 = Some (save20_applied 60)" using cp by simp
  have fc: "findCoupon ?w (cc_code (save20_applied 60)) = Some save20"
    unfolding shop_P1_def by (simp add: save20_applied_def findCoupon_shop)
  have ap: "isApplicableToProducts save20 [Ref ''P''] = Inr True"
    by (simp add: isApplicableToProducts_def save20_def toString_def includes_string_def)
  have d: "calculateDiscount save20 150 ?its = Inr (Calc 60 299 [item_of ''n1'' product_P 1])"
    using isValid_save20_150 unfolding calculateDiscount_int
    by (simp add: save20_def loaded_item_def item_of_def product_P_def
        toString_def includes_string_def)
  have d2: "calculateDiscount save20 150 [item_of ''i1'' product_P 1, item_of ''n1'' product_P 1]
              = Inr (Calc 120 598 [item_of ''i1'' product_P 1, item_of ''n1'' product_P 1])"
    using isValid_save20_150 unfolding calculateDiscount_int
    by (simp add: save20_def item_of_def product_P_def
        toString_def includes_string_def)
  have ac: "applyCoupon ?c1 save20 (Calc 60 299 [item_of ''n1'' product_P 1]) = ?c1"
    unfolding populate_cart_P1 using totals_cart_P1
    by (simp add: applyCoupon_def discountAmount_of_def save20_def save20_applied_def
        calculateFinalTotal_def calculateSubtotal_def Math_max0_def js_minus_def
        loaded_item_def item_of_def product_P_def Let_def)
  have i1: "items ?c1 = ?its" by simp
  have rv: "revalidate_after_add ?w 150 150 ''P'' ?c1 = Inr ?c1"
    unfolding revalidate_after_add_def cp1 i1
    by (simp add: fc isValid_save20_150 ap d ac)
  have sa: "save_accepts ?c1"
    unfolding populate_cart_P1 using totals_cart_P1
    by (simp add: save_accepts_def loaded_item_def item_of_def product_P_def save20_applied_def)
  have r: "addToCart ?w 150 150 ''n1'' (guest_add ''P'' 1) = (Success Item_added_to_cart, Some ?c1)"
    by (simp add: addToCart_def guest_add_def truthy_def ok fp g fe vs ai rv sa
        del: One_nat_def)
  show ?thesis using g its cp td r d d2 by simp
qed

subsection \<open>Applying a coupon to a stored cart\<close>

lemma populate_cart_P3_plain:
  "populate shop_P3_plain cart_P3_plain
     = cart_P3_plain\<lparr>items := [loaded_item ''i1'' product_P 3]\<rparr>"
  by (simp add: populate_def populate_ref_def cart_P3_plain_def items_guest_cart
      shop_P3_plain_def shop_def findProduct_def item_of_def loaded_item_def product_P_def)

text \<open>
  C8. The coupon is to be stored when the five checks pass, the fourth being that the coupon
  applies to a product id of the cart. The stored guest cart holds three \<open>P\<close> and no
  coupon, and \<open>SAVE20\<close> exists, is valid at time 150 and lists \<open>P\<close>. The handler passes the
  populated references of the loaded cart to \<open>isApplicableToProducts\<close>, none of which reads
  as an id: the fourth check fails and the answer is 400, not applicable, with the cart as
  it was. On the product ids the fourth check passes, and the fifth does too, with a
  discount of 179.
\<close>

theorem applyCoupon_handler_refuses_applicable_coupon:
  "getOrCreateCart shop_P3_plain None (Some ''guest'')
     = Some (populate shop_P3_plain cart_P3_plain) \<and>
   map productId (items (populate shop_P3_plain cart_P3_plain)) = [Populated product_P] \<and>
   findCoupon shop_P3_plain (toUpperCase ''save20'') = Some save20 \<and>
   isValid save20 150 \<and>
   isApplicableToProducts save20 [Populated product_P] = Inr False \<and>
   applyCoupon_handler shop_P3_plain 150 150 None (Some ''guest'') (Some ''save20'')
     = (Failure 400 Coupon_is_not_applicable_to_any_products_in_your_cart None,
        Some (populate shop_P3_plain cart_P3_plain)) \<and>
   isApplicableToProducts save20 [Ref (p_id product_P)] = Inr True \<and>
   calculateDiscount save20 150 [item_of ''i1'' product_P 3]
     = Inr (Calc 179 897 [item_of ''i1'' product_P 3])"
proof -
  let ?w = "shop_P3_plain"
  let ?c = "populate shop_P3_plain cart_P3_plain"
  have g: "getOrCreateCart ?w None (Some ''guest'') = Some ?c"
    unfolding shop_P3_plain_def cart_P3_plain_def by (rule getOrCreateCart_guest)
  have its: "items ?c = [loaded_item ''i1'' product_P 3]"
    unfolding populate_cart_P3_plain by simp
  have m: "map productId (items ?c) = [Populated product_P]"
    unfolding its by (simp add: loaded_item_def)
  have fc: "findCoupon ?w (toUpperCase ''save20'') = Some save20"
    unfolding shop_P3_plain_def toUpperCase_save20 by (rule findCoupon_shop)
  have na: "isApplicableToProducts save20 [Populated product_P] = Inr False"
    by (simp add: isApplicableToProducts_def save20_def toString_def includes_string_def)
  have ap: "isApplicableToProducts save20 [Ref (p_id product_P)] = Inr True"
    by (simp add: isApplicableToProducts_def save20_def toString_def includes_string_def
        product_P_def)
  have d: "calculateDiscount save20 150 [item_of ''i1'' product_P 3]
             = Inr (Calc 179 897 [item_of ''i1'' product_P 3])"
    using isValid_save20_150 unfolding calculateDiscount_int
    by (simp add: save20_def item_of_def product_P_def
        toString_def includes_string_def)
  have r: "applyCoupon_handler ?w 150 150 None (Some ''guest'') (Some ''save20'')
             = (Failure 400 Coupon_is_not_applicable_to_any_products_in_your_cart None, Some ?c)"
    unfolding applyCoupon_handler_def g
    by (simp add: truthy_def its fc [simplified] isValid_save20_150 loaded_item_def na
        del: One_nat_def)
  show ?thesis using g m fc isValid_save20_150 na r ap d by simp
qed

subsection \<open>Merging two carts\<close>

lemma populate_cart_user_P1:
  "populate shop_merge cart_user_P1 = cart_user_P1\<lparr>items := [loaded_item ''a1'' product_P 1]\<rparr>"
  by (simp add: populate_def populate_ref_def cart_user_P1_def user_cart_def new_Cart_def
      shop_merge_def shop_def findProduct_def item_of_def loaded_item_def product_P_def)

lemma totals_cart_user_P1:
  "subtotal cart_user_P1 = 299 \<and> totalDiscount cart_user_P1 = Num 0 \<and>
   finalTotal cart_user_P1 = 299 \<and> coupon cart_user_P1 = None \<and>
   userId cart_user_P1 = Some ''u1''"
  by (simp add: cart_user_P1_def user_cart_def new_Cart_def calculateFinalTotal_def
      calculateSubtotal_def Math_max0_def js_minus_def item_of_def product_P_def Let_def)

text \<open>
  C6. \<open>mergeWith\<close> is to sum the quantities, and take the price of the other cart, when the
  cart already holds an item of the same product. The user's stored cart holds one \<open>P\<close> at
  299, and the guest's stored cart two \<open>P\<close> at 250. The merge of the handler is called on
  the user's cart as \<open>getOrCreateCart\<close> loads it, with the guest's cart as the store holds
  it: the line of the user's cart is not matched, and the result has two lines, one \<open>P\<close>
  at 299 and two \<open>P\<close> at 250, and a subtotal of 799. On the two carts as the store holds
  them, the same call gives the one line of three \<open>P\<close> at 250.
\<close>

theorem mergeWith_appends_same_product:
  "getOrCreateCart shop_merge (Some ''u1'') None = Some (populate shop_merge cart_user_P1) \<and>
   cart_guest_P2 \<in> set (carts shop_merge) \<and>
   items (populate shop_merge cart_user_P1) = [loaded_item ''a1'' product_P 1] \<and>
   items cart_guest_P2 = [(item_of ''g1'' product_P 2)\<lparr>priceAtAdd := 250\<rparr>] \<and>
   mergeWith (populate shop_merge cart_user_P1) (Some cart_guest_P2)
     = Inr ((populate shop_merge cart_user_P1)
              \<lparr>items := [loaded_item ''a1'' product_P 1,
                         (item_of ''g1'' product_P 2)\<lparr>priceAtAdd := 250\<rparr>],
               subtotal := 799, finalTotal := 799\<rparr>) \<and>
   mergeWith cart_user_P1 (Some cart_guest_P2)
     = Inr (cart_user_P1
              \<lparr>items := [(item_of ''a1'' product_P 3)\<lparr>priceAtAdd := 250\<rparr>],
               subtotal := 750, finalTotal := 750\<rparr>)"
proof -
  let ?c = "populate shop_merge cart_user_P1"
  have g: "getOrCreateCart shop_merge (Some ''u1'') None = Some ?c"
    using totals_cart_user_P1
    by (simp add: getOrCreateCart_def truthy_def shop_merge_def shop_def)
  have s: "cart_guest_P2 \<in> set (carts shop_merge)"
    by (simp add: shop_merge_def shop_def)
  have its: "items ?c = [loaded_item ''a1'' product_P 1]"
    unfolding populate_cart_user_P1 by simp
  have gi: "items cart_guest_P2 = [(item_of ''g1'' product_P 2)\<lparr>priceAtAdd := 250\<rparr>]"
    unfolding cart_guest_P2_def by (rule items_guest_cart)
  have ui: "items cart_user_P1 = [item_of ''a1'' product_P 1]"
    by (simp add: cart_user_P1_def user_cart_def)
  have ml: "merge_loop [loaded_item ''a1'' product_P 1]
              [(item_of ''g1'' product_P 2)\<lparr>priceAtAdd := 250\<rparr>]
              = Inr [loaded_item ''a1'' product_P 1,
                     (item_of ''g1'' product_P 2)\<lparr>priceAtAdd := 250\<rparr>]"
    by (simp add: merge_item_def findIndex_def same_product_def toString_def loaded_item_def
        item_of_def)
  have ml2: "merge_loop [item_of ''a1'' product_P 1]
               [(item_of ''g1'' product_P 2)\<lparr>priceAtAdd := 250\<rparr>]
               = Inr [(item_of ''a1'' product_P 3)\<lparr>priceAtAdd := 250\<rparr>]"
    by (simp add: merge_item_def findIndex_def same_product_def toString_def item_of_def)
  have m: "mergeWith ?c (Some cart_guest_P2)
             = Inr (?c\<lparr>items := [loaded_item ''a1'' product_P 1,
                                  (item_of ''g1'' product_P 2)\<lparr>priceAtAdd := 250\<rparr>],
                       subtotal := 799, finalTotal := 799\<rparr>)"
  proof -
    have "calculateFinalTotal
            (?c\<lparr>items := [loaded_item ''a1'' product_P 1,
                              (item_of ''g1'' product_P 2)\<lparr>priceAtAdd := 250\<rparr>],
                   coupon := None\<rparr>)
            = ?c\<lparr>items := [loaded_item ''a1'' product_P 1,
                              (item_of ''g1'' product_P 2)\<lparr>priceAtAdd := 250\<rparr>],
                   subtotal := 799, finalTotal := 799\<rparr>"
      unfolding populate_cart_user_P1 using totals_cart_user_P1
      by (simp add: calculateFinalTotal_def calculateSubtotal_def Math_max0_def js_minus_def
          loaded_item_def item_of_def product_P_def Let_def)
    then show ?thesis by (simp only: mergeWith_def option.case sum.case its gi ml)
  qed
  have m2: "mergeWith cart_user_P1 (Some cart_guest_P2)
              = Inr (cart_user_P1
                       \<lparr>items := [(item_of ''a1'' product_P 3)\<lparr>priceAtAdd := 250\<rparr>],
                        subtotal := 750, finalTotal := 750\<rparr>)"
  proof -
    have "calculateFinalTotal
            (cart_user_P1\<lparr>items := [(item_of ''a1'' product_P 3)\<lparr>priceAtAdd := 250\<rparr>],
                            coupon := None\<rparr>)
            = cart_user_P1\<lparr>items := [(item_of ''a1'' product_P 3)\<lparr>priceAtAdd := 250\<rparr>],
                            subtotal := 750, finalTotal := 750\<rparr>"
      using totals_cart_user_P1
      by (simp add: calculateFinalTotal_def calculateSubtotal_def Math_max0_def js_minus_def
          item_of_def product_P_def Let_def)
    then show ?thesis by (simp only: mergeWith_def option.case sum.case ui gi ml2)
  qed
  show ?thesis using g s its gi m m2 by simp
qed

end
